theory Spec2Isabelle
  imports Complex_Main "HOL-Library.Word"
begin

section \<open>JavaScript values as the component sees them\<close>

text \<open>
  A JavaScript string is a sequence of UTF-16 code units. String literals of the
  program are ASCII and are written \<open>lit ''...''\<close>.
\<close>

type_synonym jsstring = "16 word list"

definition lit :: "string \<Rightarrow> jsstring" where
  "lit s = map (\<lambda>c. of_nat (of_char c)) s"

text \<open>
  The values the component handles: what \<open>JSON.parse\<close> can produce, and \<open>undefined\<close>,
  which reading a missing property gives. A number is given by its value (JSON has no
  \<open>NaN\<close>); an object is the list of its own properties, a key being looked up at its
  first entry.
\<close>

datatype jsval =
    Undefined
  | Null
  | Bool bool
  | Num real
  | Str jsstring
  | Arr "jsval list"
  | Obj "(jsstring \<times> jsval) list"

datatype exn = TypeError | NetworkError | SyntaxError | URIError

text \<open>\<open>ToBoolean\<close>: the falsy values are \<open>undefined\<close>, \<open>null\<close>, \<open>false\<close>, \<open>0\<close> and \<open>""\<close>.\<close>

fun truthy :: "jsval \<Rightarrow> bool" where
  "truthy Undefined = False"
| "truthy Null = False"
| "truthy (Bool b) = b"
| "truthy (Num r) = (r \<noteq> 0)"
| "truthy (Str s) = (s \<noteq> [])"
| "truthy (Arr _) = True"
| "truthy (Obj _) = True"

text \<open>\<open>a || b\<close> on values.\<close>

definition js_or :: "jsval \<Rightarrow> jsval \<Rightarrow> jsval" where
  "js_or a b = (if truthy a then a else b)"

text \<open>
  Decimal digits of an array index, as \<open>ToString\<close> writes the key of \<open>o[i]\<close>.
\<close>

function decimal :: "nat \<Rightarrow> jsstring" where
  "decimal n = (if n < 10 then [of_nat (48 + n)]
                else decimal (n div 10) @ [of_nat (48 + n mod 10)])"
  by pat_completeness auto
termination
  by (relation "measure id") auto

declare decimal.simps [simp del]

text \<open>
  Property reads \<open>v.k\<close> for a named property and \<open>v[i]\<close> for an index. Reading any
  property of \<open>undefined\<close> or \<open>null\<close> throws a \<open>TypeError\<close>; a property that a value does
  not have reads as \<open>undefined\<close>. Arrays and strings have \<open>length\<close> and indexed elements.
  (None of the names the component reads is inherited from a built-in prototype.)
\<close>

fun get_prop :: "jsval \<Rightarrow> jsstring \<Rightarrow> exn + jsval" where
  "get_prop Undefined k = Inl TypeError"
| "get_prop Null k = Inl TypeError"
| "get_prop (Obj kvs) k = Inr (case map_of kvs k of None \<Rightarrow> Undefined | Some v \<Rightarrow> v)"
| "get_prop (Arr xs) k = Inr (if k = lit ''length'' then Num (of_nat (length xs)) else Undefined)"
| "get_prop (Str s) k = Inr (if k = lit ''length'' then Num (of_nat (length s)) else Undefined)"
| "get_prop (Bool b) k = Inr Undefined"
| "get_prop (Num r) k = Inr Undefined"

fun get_index :: "jsval \<Rightarrow> nat \<Rightarrow> exn + jsval" where
  "get_index Undefined i = Inl TypeError"
| "get_index Null i = Inl TypeError"
| "get_index (Obj kvs) i = Inr (case map_of kvs (decimal i) of None \<Rightarrow> Undefined | Some v \<Rightarrow> v)"
| "get_index (Arr xs) i = Inr (if i < length xs then xs ! i else Undefined)"
| "get_index (Str s) i = Inr (if i < length s then Str [s ! i] else Undefined)"
| "get_index (Bool b) i = Inr Undefined"
| "get_index (Num r) i = Inr Undefined"

text \<open>Sequencing of steps that may throw.\<close>

definition and_then :: "exn + 'a \<Rightarrow> ('a \<Rightarrow> exn + 'b) \<Rightarrow> exn + 'b" where
  "and_then r f = (case r of Inl e \<Rightarrow> Inl e | Inr x \<Rightarrow> f x)"

section \<open>The component's state\<close>

record WeatherData =
  city :: jsval
  country :: jsval
  temperature :: jsval
  weatherCode :: jsval
  windSpeed :: jsval
  humidity :: jsval
  precipitation :: jsval
  isDay :: jsval

text \<open>The five \<open>useState\<close> cells of \<open>App\<close>; \<open>weather = None\<close> is \<open>null\<close>.\<close>

record app_state =
  city :: jsstring
  weather :: "WeatherData option"
  error :: jsstring
  loading :: bool
  isCelsius :: bool

section \<open>getWeatherCode\<close>

definition weatherCodes :: "(real \<times> jsstring) list" where
  "weatherCodes =
    [(0, lit ''Clear sky''),
     (1, lit ''Mainly clear''),
     (2, lit ''Partly cloudy''),
     (3, lit ''Overcast''),
     (45, lit ''Fog''),
     (48, lit ''Depositing rime fog''),
     (51, lit ''Light drizzle''),
     (53, lit ''Moderate drizzle''),
     (55, lit ''Dense drizzle''),
     (61, lit ''Slight rain''),
     (63, lit ''Moderate rain''),
     (65, lit ''Heavy rain''),
     (71, lit ''Slight snow fall''),
     (73, lit ''Moderate snow fall''),
     (75, lit ''Heavy snow fall''),
     (80, lit ''Slight rain showers''),
     (81, lit ''Moderate rain showers''),
     (82, lit ''Violent rain showers''),
     (95, lit ''Thunderstorm''),
     (96, lit ''Thunderstorm with hail''),
     (99, lit ''Thunderstorm with heavy hail'')]"

text \<open>\<open>weatherCodes[code] || "Unknown"\<close>, for a number \<open>code\<close>.\<close>

definition getWeatherCode :: "real \<Rightarrow> jsstring" where
  "getWeatherCode code =
     (case map_of weatherCodes code of
        None \<Rightarrow> lit ''Unknown''
      | Some label \<Rightarrow> if label \<noteq> [] then label else lit ''Unknown'')"

section \<open>Numbers: double-precision arithmetic\<close>

text \<open>
  A JavaScript number is an IEEE 754 double: a finite value, an infinity or \<open>NaN\<close>. A
  finite double is given by its exact value; the sign of zero is not kept (it never
  shows in the rendered text).
\<close>

datatype number = Fin real | PosInf | NegInf | NaN

text \<open>\<open>pow2 k\<close> is \<open>2\<close> to the power \<open>k\<close>, computed by squaring.\<close>

function pow2 :: "int \<Rightarrow> real" where
  "pow2 k =
     (if k < 0 then 1 / pow2 (- k)
      else if k = 0 then 1
      else if even k then pow2 (k div 2) * pow2 (k div 2)
      else 2 * (pow2 (k div 2) * pow2 (k div 2)))"
  by pat_completeness auto
termination
  by (relation "measure (\<lambda>k. if k < 0 then 2 * nat (- k) + 1 else 2 * nat k)") auto

declare pow2.simps [simp del]

text \<open>
  The binary exponent of a positive real, by bisection over the steps \<open>ks\<close>:
  \<open>log2_steps\<close> for \<open>x \<ge> 1\<close> adds up the steps by which \<open>x\<close> can be divided staying at
  least 1; \<open>frac_steps\<close> for \<open>x < 1\<close> adds up those by which \<open>x\<close> can be multiplied
  staying below 1.
\<close>

fun log2_steps :: "int list \<Rightarrow> real \<Rightarrow> int" where
  "log2_steps [] x = 0"
| "log2_steps (k # ks) x =
     (if pow2 k \<le> x then k + log2_steps ks (x / pow2 k) else log2_steps ks x)"

fun frac_steps :: "int list \<Rightarrow> real \<Rightarrow> int" where
  "frac_steps [] x = 0"
| "frac_steps (k # ks) x =
     (if x * pow2 k < 1 then k + frac_steps ks (x * pow2 k) else frac_steps ks x)"

definition bisection :: "int list" where
  "bisection = [512, 256, 128, 64, 32, 16, 8, 4, 2, 1]"

text \<open>
  The exponent \<open>e\<close> of the binade of \<open>x\<close>: \<open>pow2 e \<le> \<bar>x\<bar> < pow2 (e + 1)\<close>, and \<open>- 1022\<close> in
  the subnormal range. (From \<open>pow2 1024\<close> on it stays at 1023, where rounding overflows.)
\<close>

definition binade :: "real \<Rightarrow> int" where
  "binade x =
     (let a = \<bar>x\<bar>
      in if 1 \<le> a then log2_steps bisection a
         else if a < pow2 (- 1022) then - 1022
         else - frac_steps bisection a - 1)"

text \<open>Rounding to an integer, a tie going to the even neighbour.\<close>

definition round_even :: "real \<Rightarrow> int" where
  "round_even y =
     (let f = \<lfloor>y\<rfloor>; d = y - of_int f
      in if d < 1 / 2 then f else if 1 / 2 < d then f + 1 else if even f then f else f + 1)"

text \<open>
  \<open>fl x\<close> is the double nearest to the real \<open>x\<close> (round to nearest, ties to even): the
  doubles of the binade \<open>e\<close> of \<open>x\<close> are the multiples of \<open>pow2 (e - 52)\<close>, and a result
  of magnitude \<open>pow2 1024\<close> is an infinity. It is the result of every arithmetic operation,
  applied to the exact result, and of reading a numeric literal.
\<close>

definition fl :: "real \<Rightarrow> number" where
  "fl x =
     (let q = pow2 (binade x - 52);
          r = of_int (round_even (x / q)) * q
      in if pow2 1024 \<le> \<bar>r\<bar> then (if 0 < x then PosInf else NegInf) else Fin r)"

text \<open>
  A list of steps fit for the bisection: every step is positive and at most one more
  than the sum of the steps after it. (Used in the proofs about \<open>binade\<close>.)
\<close>

fun steps_ok :: "int list \<Rightarrow> bool" where
  "steps_ok [] = True"
| "steps_ok (k # ks) = (0 < k \<and> k \<le> sum_list ks + 1 \<and> steps_ok ks)"

text \<open>
  \<open>x * c\<close>, \<open>x / c\<close> and \<open>x + c\<close> for a number \<open>x\<close> and a constant \<open>c\<close> that is a finite
  double other than 0, as the constants 9, 5 and 32 of \<open>convertTemp\<close> are.
\<close>

definition fmul :: "number \<Rightarrow> real \<Rightarrow> number" where
  "fmul x c =
     (case x of
        Fin a \<Rightarrow> fl (a * c)
      | PosInf \<Rightarrow> if 0 < c then PosInf else NegInf
      | NegInf \<Rightarrow> if 0 < c then NegInf else PosInf
      | NaN \<Rightarrow> NaN)"

definition fdiv :: "number \<Rightarrow> real \<Rightarrow> number" where
  "fdiv x c =
     (case x of
        Fin a \<Rightarrow> fl (a / c)
      | PosInf \<Rightarrow> if 0 < c then PosInf else NegInf
      | NegInf \<Rightarrow> if 0 < c then NegInf else PosInf
      | NaN \<Rightarrow> NaN)"

definition fadd :: "number \<Rightarrow> real \<Rightarrow> number" where
  "fadd x c =
     (case x of
        Fin a \<Rightarrow> fl (a + c)
      | PosInf \<Rightarrow> PosInf
      | NegInf \<Rightarrow> NegInf
      | NaN \<Rightarrow> NaN)"

section \<open>convertTemp and the displayed temperature\<close>

text \<open>
  \<open>convertTemp\<close> reads the state cell \<open>isCelsius\<close>, here its first argument. The
  expression \<open>(tempC * 9/5) + 32\<close> is \<open>((tempC * 9) / 5) + 32\<close>.
\<close>

definition convertTemp :: "bool \<Rightarrow> number \<Rightarrow> number" where
  "convertTemp useCelsius tempC =
     (if useCelsius then tempC else fadd (fdiv (fmul tempC 9) 5) 32)"

text \<open>
  \<open>Math.round\<close>: the closest integer, a tie going towards \<open>+\<infinity>\<close>; an infinity and \<open>NaN\<close>
  are returned as they are. (The closest integer of a double is a double.)
\<close>

definition Math_round :: "number \<Rightarrow> number" where
  "Math_round x = (case x of Fin r \<Rightarrow> Fin (of_int \<lfloor>r + 1 / 2\<rfloor>) | _ \<Rightarrow> x)"

text \<open>
  The expression rendered for the temperature,
  \<open>Math.round(convertTemp(weather.temperature))\<close>, for a temperature that is a number.
\<close>

definition displayedTemp :: "bool \<Rightarrow> number \<Rightarrow> number" where
  "displayedTemp useCelsius tempC = Math_round (convertTemp useCelsius tempC)"

section \<open>Platform functions the component calls\<close>

text \<open>
  \<open>String.prototype.trim\<close> removes leading and trailing white space and line terminators:
  TAB, LF, VT, FF, CR, SPACE, NBSP, U+1680, U+2000 to U+200A, U+2028, U+2029, U+202F,
  U+205F, U+3000 and U+FEFF.
\<close>

definition isWhiteSpace :: "16 word \<Rightarrow> bool" where
  "isWhiteSpace c \<longleftrightarrow>
     c \<in> {0x9, 0xA, 0xB, 0xC, 0xD, 0x20, 0xA0, 0x1680, 0x2028, 0x2029, 0x202F, 0x205F,
          0x3000, 0xFEFF}
     \<or> (0x2000 \<le> c \<and> c \<le> 0x200A)"

definition trim :: "jsstring \<Rightarrow> jsstring" where
  "trim s = rev (dropWhile isWhiteSpace (rev (dropWhile isWhiteSpace s)))"

text \<open>
  \<open>encodeURIComponent\<close>: letters, digits and \<open>- _ . ! ~ * ' ( )\<close> are kept; every other
  code point is written as the \<open>%XX\<close> escapes of its UTF-8 bytes; an unpaired surrogate
  throws a \<open>URIError\<close>.
\<close>

definition uriUnescaped :: "16 word \<Rightarrow> bool" where
  "uriUnescaped c \<longleftrightarrow>
     (0x41 \<le> c \<and> c \<le> 0x5A) \<or> (0x61 \<le> c \<and> c \<le> 0x7A) \<or> (0x30 \<le> c \<and> c \<le> 0x39)
     \<or> c \<in> {0x2D, 0x5F, 0x2E, 0x21, 0x7E, 0x2A, 0x27, 0x28, 0x29}"

definition utf8 :: "nat \<Rightarrow> nat list" where
  "utf8 cp =
     (if cp < 0x80 then [cp]
      else if cp < 0x800 then [0xC0 + cp div 64, 0x80 + cp mod 64]
      else if cp < 0x10000 then
        [0xE0 + cp div 4096, 0x80 + (cp div 64) mod 64, 0x80 + cp mod 64]
      else
        [0xF0 + cp div 262144, 0x80 + (cp div 4096) mod 64, 0x80 + (cp div 64) mod 64,
         0x80 + cp mod 64])"

definition hexDigit :: "nat \<Rightarrow> 16 word" where
  "hexDigit d = (if d < 10 then of_nat (48 + d) else of_nat (55 + d))"

definition escapeBytes :: "nat list \<Rightarrow> jsstring" where
  "escapeBytes bs = concat (map (\<lambda>b. [0x25, hexDigit (b div 16), hexDigit (b mod 16)]) bs)"

fun encodeURIComponent :: "jsstring \<Rightarrow> exn + jsstring" where
  "encodeURIComponent [] = Inr []"
| "encodeURIComponent (c # cs) =
     (if uriUnescaped c then
        and_then (encodeURIComponent cs) (\<lambda>r. Inr (c # r))
      else if 0xDC00 \<le> c \<and> c \<le> 0xDFFF then Inl URIError
      else if 0xD800 \<le> c \<and> c \<le> 0xDBFF then
        (case cs of
           [] \<Rightarrow> Inl URIError
         | d # ds \<Rightarrow>
             if 0xDC00 \<le> d \<and> d \<le> 0xDFFF then
               and_then (encodeURIComponent ds)
                 (\<lambda>r. Inr (escapeBytes
                     (utf8 (0x10000 + (unat c - 0xD800) * 1024 + (unat d - 0xDC00))) @ r))
             else Inl URIError)
      else
        and_then (encodeURIComponent cs) (\<lambda>r. Inr (escapeBytes (utf8 (unat c)) @ r)))"

text \<open>
  A request URL is a template literal: its fixed text and the values substituted into
  it, in order. (How the platform prints a substituted number is not modelled.)
\<close>

datatype part = Text jsstring | Subst jsval

type_synonym url = "part list"

text \<open>
  What \<open>await fetch(url)\<close> followed by \<open>await response.json()\<close> gives: the fetch rejects,
  or the body is not JSON and \<open>json()\<close> rejects, or the parsed body.
\<close>

datatype response = FetchRejected | JsonRejected | Json jsval

definition fetchJson :: "(url \<Rightarrow> response) \<Rightarrow> url \<Rightarrow> exn + jsval" where
  "fetchJson net u =
     (case net u of
        FetchRejected \<Rightarrow> Inl NetworkError
      | JsonRejected \<Rightarrow> Inl SyntaxError
      | Json body \<Rightarrow> Inr body)"

section \<open>getWeather\<close>

text \<open>
  What a handler does, in order: calls of the state setters, requests sent, and
  \<open>console.error\<close>.
\<close>

datatype effect =
    SetCity jsstring
  | SetWeather "WeatherData option"
  | SetError jsstring
  | SetLoading bool
  | SetIsCelsius bool
  | Fetch url
  | ConsoleError exn

fun apply_effect :: "effect \<Rightarrow> app_state \<Rightarrow> app_state" where
  "apply_effect (SetCity v) st = st\<lparr>city := v\<rparr>"
| "apply_effect (SetWeather v) st = st\<lparr>weather := v\<rparr>"
| "apply_effect (SetError v) st = st\<lparr>error := v\<rparr>"
| "apply_effect (SetLoading v) st = st\<lparr>loading := v\<rparr>"
| "apply_effect (SetIsCelsius v) st = st\<lparr>isCelsius := v\<rparr>"
| "apply_effect (Fetch u) st = st"
| "apply_effect (ConsoleError e) st = st"

definition run :: "effect list \<Rightarrow> app_state \<Rightarrow> app_state" where
  "run es st = foldl (\<lambda>s e. apply_effect e s) st es"

definition geoUrl :: "jsstring \<Rightarrow> url" where
  "geoUrl encodedCity =
     [Text (lit ''https://geocoding-api.open-meteo.com/v1/search?name=''),
      Subst (Str encodedCity)]"

definition weatherUrl :: "jsval \<Rightarrow> jsval \<Rightarrow> url" where
  "weatherUrl latitude longitude =
     [Text (lit ''https://api.open-meteo.com/v1/forecast?latitude=''),
      Subst latitude,
      Text (lit ''&longitude=''),
      Subst longitude,
      Text (lit ''&current_weather=true&hourly=temperature_2m,relative_humidity_2m,precipitation_probability,wind_speed_10m&timezone=auto'')]"

text \<open>\<open>!geoData.results || geoData.results.length === 0\<close>\<close>

definition noResults :: "jsval \<Rightarrow> exn + bool" where
  "noResults geoData =
     and_then (get_prop geoData (lit ''results'')) (\<lambda>results.
       if \<not> truthy results then Inr True
       else and_then (get_prop results (lit ''length'')) (\<lambda>len. Inr (len = Num 0)))"

text \<open>\<open>const { latitude, longitude, name, country } = geoData.results[0]\<close>\<close>

definition firstCandidate :: "jsval \<Rightarrow> exn + (jsval \<times> jsval \<times> jsval \<times> jsval)" where
  "firstCandidate geoData =
     and_then (get_prop geoData (lit ''results'')) (\<lambda>results.
     and_then (get_index results 0) (\<lambda>candidate.
     and_then (get_prop candidate (lit ''latitude'')) (\<lambda>latitude.
     and_then (get_prop candidate (lit ''longitude'')) (\<lambda>longitude.
     and_then (get_prop candidate (lit ''name'')) (\<lambda>name.
     and_then (get_prop candidate (lit ''country'')) (\<lambda>country.
       Inr (latitude, longitude, name, country)))))))"

text \<open>
  From \<open>const currentWeather = weatherData.current_weather\<close> to the object passed to
  \<open>setWeather\<close>; \<open>currentHour\<close> is \<open>new Date().getHours()\<close>.
\<close>

definition snapshot :: "nat \<Rightarrow> jsval \<Rightarrow> jsval \<Rightarrow> jsval \<Rightarrow> exn + WeatherData" where
  "snapshot currentHour name country' weatherData =
     and_then (get_prop weatherData (lit ''current_weather'')) (\<lambda>currentWeather.
     and_then (get_prop weatherData (lit ''hourly'')) (\<lambda>hourly1.
     and_then (get_prop hourly1 (lit ''relative_humidity_2m'')) (\<lambda>humidities.
     and_then (get_index humidities currentHour) (\<lambda>h.
     and_then (get_prop weatherData (lit ''hourly'')) (\<lambda>hourly2.
     and_then (get_prop hourly2 (lit ''precipitation_probability'')) (\<lambda>probabilities.
     and_then (get_index probabilities currentHour) (\<lambda>p.
     and_then (get_prop currentWeather (lit ''temperature'')) (\<lambda>temperature.
     and_then (get_prop currentWeather (lit ''weathercode'')) (\<lambda>weathercode.
     and_then (get_prop currentWeather (lit ''windspeed'')) (\<lambda>windspeed.
     and_then (get_prop currentWeather (lit ''is_day'')) (\<lambda>is_day.
       Inr \<lparr>WeatherData.city = name,
            country = country',
            temperature = temperature,
            weatherCode = weathercode,
            windSpeed = windspeed,
            humidity = js_or h (Num 0),
            precipitation = js_or p (Num 0),
            isDay = is_day\<rparr>)))))))))))"

text \<open>
  The body of the \<open>try\<close> block: the effects it performs, and whether it completes (also
  by its early \<open>return\<close>) or throws.
\<close>

definition tryBlock :: "(url \<Rightarrow> response) \<Rightarrow> nat \<Rightarrow> jsstring \<Rightarrow> effect list \<times> (exn + unit)" where
  "tryBlock net currentHour cityText =
     (case encodeURIComponent cityText of
        Inl e \<Rightarrow> ([], Inl e)
      | Inr q \<Rightarrow>
     (case fetchJson net (geoUrl q) of
        Inl e \<Rightarrow> ([Fetch (geoUrl q)], Inl e)
      | Inr geoData \<Rightarrow>
     (case noResults geoData of
        Inl e \<Rightarrow> ([Fetch (geoUrl q)], Inl e)
      | Inr none \<Rightarrow>
          if none then
            ([Fetch (geoUrl q), SetError (lit ''City not found!''), SetWeather None,
              SetLoading False], Inr ())
          else
     (case firstCandidate geoData of
        Inl e \<Rightarrow> ([Fetch (geoUrl q)], Inl e)
      | Inr (latitude, longitude, name, country') \<Rightarrow>
     (case fetchJson net (weatherUrl latitude longitude) of
        Inl e \<Rightarrow> ([Fetch (geoUrl q), Fetch (weatherUrl latitude longitude)], Inl e)
      | Inr weatherData \<Rightarrow>
     (case snapshot currentHour name country' weatherData of
        Inl e \<Rightarrow> ([Fetch (geoUrl q), Fetch (weatherUrl latitude longitude)], Inl e)
      | Inr w \<Rightarrow>
          ([Fetch (geoUrl q), Fetch (weatherUrl latitude longitude), SetWeather (Some w)],
           Inr ())))))))"

text \<open>
  \<open>getWeather\<close>: the guard on the trimmed input, then the \<open>try\<close> block with its \<open>catch\<close>
  and \<open>finally\<close>. \<open>net\<close> answers the requests.
\<close>

definition getWeather :: "(url \<Rightarrow> response) \<Rightarrow> nat \<Rightarrow> app_state \<Rightarrow> effect list" where
  "getWeather net currentHour st =
     (if \<not> truthy (Str (trim (city st))) then
        [SetError (lit ''Please enter a city name'')]
      else
        [SetLoading True, SetError []] @
        (case tryBlock net currentHour (city st) of
           (es, Inl err) \<Rightarrow>
             es @ [ConsoleError err,
                   SetError (lit ''Error fetching weather data. Please try again.''),
                   SetWeather None]
         | (es, Inr _) \<Rightarrow> es) @
        [SetLoading False])"

section \<open>Event handlers\<close>

datatype event =
    Change jsstring
  | KeyPress jsstring
  | ClickGetWeather
  | ClickCelsius
  | ClickFahrenheit

fun handle :: "(url \<Rightarrow> response) \<Rightarrow> nat \<Rightarrow> event \<Rightarrow> app_state \<Rightarrow> effect list" where
  "handle net currentHour (Change v) st = [SetCity v]"
| "handle net currentHour (KeyPress k) st =
     (if k = lit ''Enter'' then getWeather net currentHour st else [])"
| "handle net currentHour ClickGetWeather st =
     (if loading st then [] else getWeather net currentHour st)"
| "handle net currentHour ClickCelsius st = [SetIsCelsius True]"
| "handle net currentHour ClickFahrenheit st = [SetIsCelsius False]"

definition step :: "(url \<Rightarrow> response) \<Rightarrow> nat \<Rightarrow> event \<Rightarrow> app_state \<Rightarrow> app_state" where
  "step net currentHour ev st = run (handle net currentHour ev st) st"

section \<open>The condition-code table as the specification lists it\<close>

text \<open>
  The enumeration of section 6 of the specification, code and label, in its order. It
  is compared with \<open>weatherCodes\<close> below.
\<close>

definition spec_condition_table :: "(int \<times> string) list" where
  "spec_condition_table =
    [(0, ''Clear sky''), (1, ''Mainly clear''), (2, ''Partly cloudy''), (3, ''Overcast''),
     (45, ''Fog''), (48, ''Depositing rime fog''), (51, ''Light drizzle''),
     (53, ''Moderate drizzle''), (55, ''Dense drizzle''), (61, ''Slight rain''),
     (63, ''Moderate rain''), (65, ''Heavy rain''), (71, ''Slight snow fall''),
     (73, ''Moderate snow fall''), (75, ''Heavy snow fall''), (80, ''Slight rain showers''),
     (81, ''Moderate rain showers''), (82, ''Violent rain showers''), (95, ''Thunderstorm''),
     (96, ''Thunderstorm with hail''), (99, ''Thunderstorm with heavy hail'')]"

section \<open>Sample inputs\<close>

text \<open>
  A geocoding answer with two candidates, a forecast whose hourly series are shorter
  than a day, and a few states and networks built from them.
\<close>

definition sample_geo :: jsval where
  "sample_geo =
     Obj [(lit ''results'',
           Arr [Obj [(lit ''latitude'', Num 48.85341), (lit ''longitude'', Num 2.3488),
                     (lit ''name'', Str (lit ''Paris'')),
                     (lit ''country'', Str (lit ''France''))],
                Obj [(lit ''latitude'', Num 33.66094), (lit ''longitude'', Num (-95.55551)),
                     (lit ''name'', Str (lit ''Paris'')),
                     (lit ''country'', Str (lit ''United States''))]])]"

definition sample_forecast :: jsval where
  "sample_forecast =
     Obj [(lit ''current_weather'',
           Obj [(lit ''temperature'', Num 20.5), (lit ''weathercode'', Num 3),
                (lit ''windspeed'', Num 11.2), (lit ''is_day'', Num 1)]),
          (lit ''hourly'',
           Obj [(lit ''relative_humidity_2m'', Arr [Num 81, Num 0, Num 64]),
                (lit ''precipitation_probability'', Arr [Num 5, Null])])]"

definition sample_net :: "url \<Rightarrow> response" where
  "sample_net u = (if length u = 2 then Json sample_geo else Json sample_forecast)"

definition sample_state :: app_state where
  "sample_state =
     \<lparr>city = lit '' Paris '', weather = None, error = [], loading = False, isCelsius = True\<rparr>"

definition sample_snapshot :: WeatherData where
  "sample_snapshot =
     \<lparr>WeatherData.city = Str (lit ''Paris''), country = Str (lit ''France''),
      temperature = Num 20.5, weatherCode = Num 3, windSpeed = Num 11.2,
      humidity = Num 64, precipitation = Num 0, isDay = Num 1\<rparr>"

text \<open>A state that shows an earlier snapshot while the input holds only white space.\<close>

definition blank_state :: app_state where
  "blank_state =
     \<lparr>city = [0x20, 0x9, 0x3000], weather = Some sample_snapshot, error = [],
      loading = False, isCelsius = True\<rparr>"

definition no_hourly_forecast :: jsval where
  "no_hourly_forecast =
     Obj [(lit ''current_weather'',
           Obj [(lit ''temperature'', Num 20.5), (lit ''weathercode'', Num 3),
                (lit ''windspeed'', Num 11.2), (lit ''is_day'', Num 1)])]"

definition no_hourly_net :: "url \<Rightarrow> response" where
  "no_hourly_net u = (if length u = 2 then Json sample_geo else Json no_hourly_forecast)"

definition empty_geo_net :: "url \<Rightarrow> response" where
  "empty_geo_net u = Json (Obj [(lit ''results'', Arr [])])"

definition down_net :: "url \<Rightarrow> response" where
  "down_net u = FetchRejected"




definition null_series_forecast :: jsval where
  "null_series_forecast =
     Obj [(lit ''current_weather'',
           Obj [(lit ''temperature'', Num 20.5), (lit ''weathercode'', Num 3),
                (lit ''windspeed'', Num 11.2), (lit ''is_day'', Num 1)]),
          (lit ''hourly'',
           Obj [(lit ''relative_humidity_2m'', Arr [Num 81, Num 0, Num 64]),
                (lit ''precipitation_probability'', Null)])]"

definition null_series_net :: "url \<Rightarrow> response" where
  "null_series_net u = (if length u = 2 then Json sample_geo else Json null_series_forecast)"

section \<open>Basic facts\<close>

lemma all_dropWhile_iff: "(\<forall>x\<in>set (dropWhile P s). P x) \<longleftrightarrow> (\<forall>x\<in>set s. P x)"
  by (induction s) auto

lemma trim_Nil_iff: "trim s = [] \<longleftrightarrow> (\<forall>c\<in>set s. isWhiteSpace c)"
  by (simp add: trim_def dropWhile_eq_Nil_conv all_dropWhile_iff)

lemma lit_Nil_iff: "lit s = [] \<longleftrightarrow> s = []"
  by (simp add: lit_def)

lemma run_Nil: "run [] st = st"
  by (simp add: run_def)

lemma run_Cons: "run (e # es) st = run es (apply_effect e st)"
  by (simp add: run_def)

lemma run_append: "run (xs @ ys) st = run ys (run xs st)"
  by (simp add: run_def)

lemma run_only_fetches: "\<forall>x\<in>set es. \<exists>u. x = Fetch u \<Longrightarrow> run es st = st"
  by (induction es) (auto simp: run_Nil run_Cons)

lemma apply_effect_weather:
  "weather s = weather s' \<Longrightarrow> weather (apply_effect e s) = weather (apply_effect e s')"
  by (cases e) simp_all

lemma run_weather: "weather s = weather s' \<Longrightarrow> weather (run es s) = weather (run es s')"
proof (induction es arbitrary: s s')
  case Nil
  then show ?case by (simp add: run_Nil)
next
  case (Cons e es)
  from Cons.prems have "weather (apply_effect e s) = weather (apply_effect e s')"
    by (rule apply_effect_weather)
  then show ?case
    unfolding run_Cons by (rule Cons.IH)
qed

lemma get_prop_defined: "v \<noteq> Undefined \<Longrightarrow> v \<noteq> Null \<Longrightarrow> \<exists>x. get_prop v k = Inr x"
  by (cases v) auto

subsection \<open>Rounding to a double\<close>

lemma pow2_power_int: "pow2 k = power_int 2 k"
proof (induction k rule: pow2.induct)
  case (1 k)
  show ?case
  proof (cases "k < 0")
    case True
    with "1.IH"(1) have ih: "pow2 (- k) = power_int 2 (- k)"
      by simp
    from True have "pow2 k = 1 / pow2 (- k)"
      by (subst pow2.simps) simp
    also have "\<dots> = 1 / power_int 2 (- k)"
      by (simp only: ih)
    also have "\<dots> = power_int 2 k"
      by (simp add: power_int_minus field_simps)
    finally show ?thesis .
  next
    case False
    show ?thesis
    proof (cases "k = 0")
      case True
      then show ?thesis
        by (subst pow2.simps) simp
    next
      case nz: False
      with False have pos: "0 < k"
        by simp
      show ?thesis
      proof (cases "even k")
        case True
        with "1.IH"(2) False nz have ih: "pow2 (k div 2) = power_int 2 (k div 2)"
          by simp
        from True have "k = k div 2 + k div 2"
          by presburger
        then have "power_int (2::real) k = power_int 2 (k div 2) * power_int 2 (k div 2)"
          by (metis power_int_add zero_neq_numeral)
        with True False nz ih show ?thesis
          by (subst pow2.simps) simp
      next
        case odd: False
        with "1.IH"(4) False nz have ih: "pow2 (k div 2) = power_int 2 (k div 2)"
          by simp
        from odd have "k = 1 + (k div 2 + k div 2)"
          by presburger
        then have "power_int (2::real) k = power_int 2 1 * (power_int 2 (k div 2) * power_int 2 (k div 2))"
          by (metis power_int_add zero_neq_numeral)
        with odd False nz ih show ?thesis
          by (subst pow2.simps) simp
      qed
    qed
  qed
qed

lemma pow2_pos: "0 < pow2 k"
  by (simp add: pow2_power_int)

lemma pow2_add: "pow2 (a + b) = pow2 a * pow2 b"
  by (simp add: pow2_power_int power_int_add)

lemma pow2_mono: "a \<le> b \<Longrightarrow> pow2 a \<le> pow2 b"
  by (simp add: pow2_power_int power_int_increasing)

lemma pow2_0: "pow2 0 = 1"
  by (simp add: pow2_power_int)

lemma log2_steps_le: "1 \<le> x \<Longrightarrow> pow2 (log2_steps ks x) \<le> x"
proof (induction ks arbitrary: x)
  case Nil
  then show ?case by (simp add: pow2_0)
next
  case (Cons k ks)
  show ?case
  proof (cases "pow2 k \<le> x")
    case True
    then have "1 \<le> x / pow2 k"
      using pow2_pos [of k] by (simp add: field_simps)
    from Cons.IH [OF this] have "pow2 k * pow2 (log2_steps ks (x / pow2 k)) \<le> x"
      using pow2_pos [of k] by (simp add: field_simps)
    with True show ?thesis
      by (simp add: pow2_add)
  next
    case False
    with Cons.IH [OF Cons.prems] show ?thesis
      by simp
  qed
qed

lemma frac_steps_ge:
  "steps_ok ks \<Longrightarrow> 0 < x \<Longrightarrow> 1 \<le> x * pow2 (sum_list ks + 1) \<Longrightarrow>
   1 \<le> x * pow2 (frac_steps ks x + 1)"
proof (induction ks arbitrary: x)
  case Nil
  then show ?case by simp
next
  case (Cons k ks)
  from Cons.prems(1) have ok: "steps_ok ks" and k: "0 < k" "k \<le> sum_list ks + 1"
    by simp_all
  show ?case
  proof (cases "x * pow2 k < 1")
    case True
    have "0 < x * pow2 k"
      using Cons.prems(2) pow2_pos [of k] by simp
    moreover have "1 \<le> x * pow2 k * pow2 (sum_list ks + 1)"
      using Cons.prems(3) by (simp add: pow2_add mult.assoc add.assoc)
    ultimately have "1 \<le> x * pow2 k * pow2 (frac_steps ks (x * pow2 k) + 1)"
      by (rule Cons.IH [OF ok])
    with True show ?thesis
      by (simp add: pow2_add mult.assoc add.assoc)
  next
    case False
    have "x * pow2 k \<le> x * pow2 (sum_list ks + 1)"
      using pow2_mono [OF k(2)] Cons.prems(2) by simp
    with False have "1 \<le> x * pow2 (sum_list ks + 1)"
      by simp
    from Cons.IH [OF ok Cons.prems(2) this] False show ?thesis
      by simp
  qed
qed

lemma bisection_ok: "steps_ok bisection \<and> sum_list bisection = 1023"
  by (simp add: bisection_def)

lemma binade_le:
  assumes "pow2 (- 1022) \<le> \<bar>x\<bar>"
  shows "pow2 (binade x) \<le> \<bar>x\<bar>"
proof (cases "1 \<le> \<bar>x\<bar>")
  case True
  then show ?thesis
    by (simp add: binade_def log2_steps_le)
next
  case False
  from assms have pos: "0 < \<bar>x\<bar>"
    using pow2_pos [of "- 1022"] by linarith
  have "pow2 (- 1022) * pow2 1024 = pow2 2"
    by (simp flip: pow2_add)
  moreover have "1 \<le> pow2 2"
    using pow2_mono [of 0 2] by (simp add: pow2_0)
  ultimately have "1 \<le> \<bar>x\<bar> * pow2 1024"
    using mult_right_mono [OF assms, of "pow2 1024"] pow2_pos [of 1024] by simp
  then have "1 \<le> \<bar>x\<bar> * pow2 (sum_list bisection + 1)"
    by (simp add: bisection_ok)
  with bisection_ok pos have "1 \<le> \<bar>x\<bar> * pow2 (frac_steps bisection \<bar>x\<bar> + 1)"
    by (simp add: frac_steps_ge)
  moreover have "pow2 (- frac_steps bisection \<bar>x\<bar> - 1) * pow2 (frac_steps bisection \<bar>x\<bar> + 1) = 1"
    by (simp flip: pow2_add add: pow2_0)
  ultimately have "pow2 (- frac_steps bisection \<bar>x\<bar> - 1) \<le> \<bar>x\<bar>"
    using pow2_pos [of "frac_steps bisection \<bar>x\<bar> + 1"]
    by (metis mult.commute mult_le_cancel_left_pos)
  with False assms show ?thesis
    by (simp add: binade_def)
qed

lemma round_even_near: "\<bar>real_of_int (round_even y) - y\<bar> \<le> 1 / 2"
  unfolding round_even_def Let_def by (auto; linarith)

lemma fl_error:
  assumes "fl x = Fin r" and "pow2 (- 1022) \<le> \<bar>x\<bar>"
  shows "\<bar>r - x\<bar> \<le> \<bar>x\<bar> / 2 ^ 53"
proof -
  define q where "q = pow2 (binade x - 52)"
  have qpos: "0 < q"
    by (simp add: q_def pow2_pos)
  from assms(1) have r: "r = real_of_int (round_even (x / q)) * q"
    by (simp add: fl_def Let_def q_def split: if_splits)
  have "(real_of_int (round_even (x / q)) - x / q) * q = r - x"
    using qpos by (simp add: r field_simps)
  then have "\<bar>r - x\<bar> = \<bar>real_of_int (round_even (x / q)) - x / q\<bar> * \<bar>q\<bar>"
    by (metis abs_mult)
  with qpos have "\<bar>r - x\<bar> = \<bar>real_of_int (round_even (x / q)) - x / q\<bar> * q"
    by simp
  also have "\<dots> \<le> 1 / 2 * q"
    using round_even_near [of "x / q"] qpos by (intro mult_right_mono) simp_all
  also have "1 / 2 * q = pow2 (binade x) * pow2 (- 53)"
    by (simp add: q_def pow2_power_int power_int_diff power_int_minus)
  also have "\<dots> \<le> \<bar>x\<bar> * pow2 (- 53)"
    using binade_le [OF assms(2)] pow2_pos [of "- 53"] by (intro mult_right_mono) simp_all
  also have "pow2 (- 53) = 1 / 2 ^ 53"
    by (simp add: pow2_power_int power_int_minus field_simps)
  finally show ?thesis
    by simp
qed

lemma floor_half_near: "\<bar>real_of_int \<lfloor>c + 1 / 2\<rfloor> - c\<bar> \<le> 1 / 2"
  by linarith

subsection \<open>The condition-code table\<close>

lemma weatherCodes_eq_spec:
  "weatherCodes = map (\<lambda>(k, l). (real_of_int k, lit l)) spec_condition_table"
  by (simp add: weatherCodes_def spec_condition_table_def)

lemma map_of_embed:
  "map_of (map (\<lambda>(k, l). (real_of_int k, g l)) t) (real_of_int c) = map_option g (map_of t c)"
  by (induction t) auto

lemma spec_labels_nonempty: "(k, l) \<in> set spec_condition_table \<Longrightarrow> l \<noteq> []"
  by (auto simp: spec_condition_table_def)

subsection \<open>The try block\<close>

lemma getWeather_guarded:
  "truthy (Str (trim (city st))) \<Longrightarrow> tryBlock net h (city st) = (es, r) \<Longrightarrow>
   getWeather net h st =
     [SetLoading True, SetError []] @ es @
     (case r of
        Inl err \<Rightarrow> [ConsoleError err,
                    SetError (lit ''Error fetching weather data. Please try again.''),
                    SetWeather None]
      | Inr _ \<Rightarrow> []) @
     [SetLoading False]"
  by (cases r) (simp_all add: getWeather_def)

lemma lookup_always_settles:
  assumes "trim (city st) \<noteq> []"
  shows "loading (run (getWeather net h st) st) = False"
proof -
  obtain es r where tb: "tryBlock net h (city st) = (es, r)"
    by (cases "tryBlock net h (city st)")
  from assms have "truthy (Str (trim (city st)))"
    by simp
  from getWeather_guarded [OF this tb] obtain xs where
    "getWeather net h st = xs @ [SetLoading False]"
    by (metis append.assoc)
  then show ?thesis
    by (simp add: run_append run_Cons run_Nil)
qed

lemma tryBlock_Inl_only_fetches:
  "tryBlock net h c = (es, Inl e) \<Longrightarrow> \<forall>x\<in>set es. \<exists>u. x = Fetch u"
  by (auto simp: tryBlock_def split: sum.splits if_splits prod.splits)

lemma tryBlock_unpaired_surrogate:
  "encodeURIComponent c = Inl e \<Longrightarrow> tryBlock net h c = ([], Inl e)"
  by (simp add: tryBlock_def)

lemma tryBlock_geo_rejected:
  "encodeURIComponent c = Inr q \<Longrightarrow> net (geoUrl q) = FetchRejected \<Longrightarrow>
   tryBlock net h c = ([Fetch (geoUrl q)], Inl NetworkError)"
  by (simp add: tryBlock_def fetchJson_def)

lemma tryBlock_geo_not_json:
  "encodeURIComponent c = Inr q \<Longrightarrow> net (geoUrl q) = JsonRejected \<Longrightarrow>
   tryBlock net h c = ([Fetch (geoUrl q)], Inl SyntaxError)"
  by (simp add: tryBlock_def fetchJson_def)

lemma tryBlock_geo_null:
  "encodeURIComponent c = Inr q \<Longrightarrow> net (geoUrl q) = Json Null \<Longrightarrow>
   tryBlock net h c = ([Fetch (geoUrl q)], Inl TypeError)"
  by (simp add: tryBlock_def fetchJson_def noResults_def and_then_def)

lemma tryBlock_weather_rejected:
  "encodeURIComponent c = Inr q \<Longrightarrow> net (geoUrl q) = Json g \<Longrightarrow> noResults g = Inr False \<Longrightarrow>
   firstCandidate g = Inr (la, lo, n, co) \<Longrightarrow> net (weatherUrl la lo) = FetchRejected \<Longrightarrow>
   tryBlock net h c = ([Fetch (geoUrl q), Fetch (weatherUrl la lo)], Inl NetworkError)"
  by (simp add: tryBlock_def fetchJson_def)

lemma tryBlock_weather_not_json:
  "encodeURIComponent c = Inr q \<Longrightarrow> net (geoUrl q) = Json g \<Longrightarrow> noResults g = Inr False \<Longrightarrow>
   firstCandidate g = Inr (la, lo, n, co) \<Longrightarrow> net (weatherUrl la lo) = JsonRejected \<Longrightarrow>
   tryBlock net h c = ([Fetch (geoUrl q), Fetch (weatherUrl la lo)], Inl SyntaxError)"
  by (simp add: tryBlock_def fetchJson_def)

lemma tryBlock_weather_shape:
  "encodeURIComponent c = Inr q \<Longrightarrow> net (geoUrl q) = Json g \<Longrightarrow> noResults g = Inr False \<Longrightarrow>
   firstCandidate g = Inr (la, lo, n, co) \<Longrightarrow> net (weatherUrl la lo) = Json wd \<Longrightarrow>
   snapshot h n co wd = Inl e \<Longrightarrow>
   tryBlock net h c = ([Fetch (geoUrl q), Fetch (weatherUrl la lo)], Inl e)"
  by (simp add: tryBlock_def fetchJson_def)

lemma get_prop_throws_TypeError: "get_prop v k = Inl e \<Longrightarrow> e = TypeError"
  by (cases v) auto

lemma snapshot_missing_hourly:
  "get_prop wd (lit ''hourly'') = Inr Undefined \<Longrightarrow> snapshot h n co wd = Inl TypeError"
  by (auto simp: snapshot_def and_then_def split: sum.splits dest: get_prop_throws_TypeError)




lemma tryBlock_Inr_cases:
  "tryBlock net h c = (es, Inr u) \<Longrightarrow>
     (\<exists>q. es = [Fetch (geoUrl q), SetError (lit ''City not found!''), SetWeather None,
                SetLoading False])
   \<or> (\<exists>q la lo w. es = [Fetch (geoUrl q), Fetch (weatherUrl la lo), SetWeather (Some w)])"
  by (auto simp: tryBlock_def split: sum.splits if_splits prod.splits) blast+

lemma throw_final_state:
  assumes "trim (city st) \<noteq> []"
    and "tryBlock net h (city st) = (es, Inl e)"
  shows "error (run (getWeather net h st) st)
           = lit ''Error fetching weather data. Please try again.''
       \<and> weather (run (getWeather net h st) st) = None
       \<and> loading (run (getWeather net h st) st) = False"
proof -
  from assms(1) have guard: "truthy (Str (trim (city st)))"
    by simp
  have trace: "getWeather net h st =
           [SetLoading True, SetError []] @ es @
           [ConsoleError e, SetError (lit ''Error fetching weather data. Please try again.''),
            SetWeather None, SetLoading False]"
    using getWeather_guarded [OF guard assms(2)] by simp
  have quiet: "\<And>s. run es s = s"
    using tryBlock_Inl_only_fetches [OF assms(2)] by (rule run_only_fetches)
  show ?thesis
    unfolding trace by (simp add: run_append quiet) (simp add: run_def)
qed

lemma get_index_throws_TypeError: "get_index v i = Inl e \<Longrightarrow> e = TypeError"
  by (cases v) auto

lemma get_index_defined: "v \<noteq> Undefined \<Longrightarrow> v \<noteq> Null \<Longrightarrow> \<exists>x. get_index v i = Inr x"
  by (cases v) auto

lemma snapshot_throws_TypeError: "snapshot h n c wd = Inl e \<Longrightarrow> e = TypeError"
  by (auto simp: snapshot_def and_then_def split: sum.splits
      dest: get_prop_throws_TypeError get_index_throws_TypeError)

lemma snapshot_missing_series:
  assumes "get_prop wd (lit ''hourly'') = Inr hourly"
    and "hourly = Undefined \<or> hourly = Null
         \<or> get_prop hourly (lit ''relative_humidity_2m'') = Inr Undefined
         \<or> get_prop hourly (lit ''relative_humidity_2m'') = Inr Null
         \<or> get_prop hourly (lit ''precipitation_probability'') = Inr Undefined
         \<or> get_prop hourly (lit ''precipitation_probability'') = Inr Null"
  shows "snapshot h n c wd = Inl TypeError"
proof (cases "snapshot h n c wd")
  case (Inl e)
  then show ?thesis
    by (simp add: snapshot_throws_TypeError)
next
  case (Inr w)
  then obtain humidities probabilities x y where
    "get_prop hourly (lit ''relative_humidity_2m'') = Inr humidities"
    "get_index humidities h = Inr x"
    "get_prop hourly (lit ''precipitation_probability'') = Inr probabilities"
    "get_index probabilities h = Inr y"
    using assms(1) by (auto simp: snapshot_def and_then_def split: sum.splits)
  with assms(2) show ?thesis
    by auto
qed

lemma throw_in_forecast:
  assumes "trim (city st) \<noteq> []"
    and "encodeURIComponent (city st) = Inr q"
    and "net (geoUrl q) = Json g"
    and "noResults g = Inr False"
    and "firstCandidate g = Inr (la, lo, n, c)"
    and "net (weatherUrl la lo) = Json wd"
    and "snapshot h n c wd = Inl e"
  shows "error (run (getWeather net h st) st)
           = lit ''Error fetching weather data. Please try again.''
       \<and> weather (run (getWeather net h st) st) = None"
proof -
  from assms(2-7) have "tryBlock net h (city st)
      = ([Fetch (geoUrl q), Fetch (weatherUrl la lo)], Inl e)"
    by (rule tryBlock_weather_shape)
  from throw_final_state [OF assms(1) this] show ?thesis
    by simp
qed

section \<open>The claims\<close>




text \<open>
  Claim C2, as stated, counts 23 entries in the table. The table of the program has 21.
\<close>

theorem weatherCodes_not_23: "\<not> (length weatherCodes = 23)"
  by (simp add: weatherCodes_def)

text \<open>
  Claim C2, amended. The table of the program is the enumeration of section 6, which
  has 21 entries with distinct codes; for every integer code \<open>getWeatherCode\<close> returns
  the label listed for it there, and "Unknown" when the code is not listed.
\<close>

theorem getWeatherCode_table:
  "getWeatherCode (real_of_int c) =
     (case map_of spec_condition_table c of Some l \<Rightarrow> lit l | None \<Rightarrow> lit ''Unknown'')
   \<and> weatherCodes = map (\<lambda>(k, l). (real_of_int k, lit l)) spec_condition_table
   \<and> distinct (map fst spec_condition_table)
   \<and> length spec_condition_table = 21"
proof -
  have "getWeatherCode (real_of_int c) =
     (case map_of spec_condition_table c of Some l \<Rightarrow> lit l | None \<Rightarrow> lit ''Unknown'')"
    unfolding getWeatherCode_def weatherCodes_eq_spec map_of_embed
    by (auto split: option.splits simp: lit_Nil_iff dest!: map_of_SomeD spec_labels_nonempty)
  moreover have "distinct (map fst spec_condition_table)"
    by (simp add: spec_condition_table_def)
  moreover have "length spec_condition_table = 21"
    by (simp add: spec_condition_table_def)
  ultimately show ?thesis
    using weatherCodes_eq_spec by simp
qed

text \<open>
  Claim C3, as stated, has the snapshot cleared also when the input is empty or white
  space. On a state that holds a snapshot and a white-space input, the click on the
  button leaves the snapshot in place and only sets the message.
\<close>

theorem empty_input_keeps_snapshot:
  "weather blank_state = Some sample_snapshot
   \<and> weather (step sample_net 2 ClickGetWeather blank_state) = Some sample_snapshot
   \<and> error (step sample_net 2 ClickGetWeather blank_state) = lit ''Please enter a city name''"
  by code_simp

text \<open>
  Claim C3, amended. A lookup that passes the guard ends in one of three ways: with
  "City not found!" and no snapshot, with the generic fetch message and no snapshot, or
  with no message and a snapshot. A submission with empty or white-space input sets
  "Please enter a city name" and leaves the snapshot as it was.
\<close>

theorem lookup_outcomes:
  "(trim (city st) \<noteq> [] \<longrightarrow>
       (error (run (getWeather net h st) st) = lit ''City not found!''
          \<and> weather (run (getWeather net h st) st) = None)
     \<or> (error (run (getWeather net h st) st)
            = lit ''Error fetching weather data. Please try again.''
          \<and> weather (run (getWeather net h st) st) = None)
     \<or> (error (run (getWeather net h st) st) = []
          \<and> (\<exists>w. weather (run (getWeather net h st) st) = Some w)))
   \<and> (trim (city st) = [] \<longrightarrow>
         error (run (getWeather net h st) st) = lit ''Please enter a city name''
       \<and> weather (run (getWeather net h st) st) = weather st)"
proof (rule conjI; rule impI)
  assume ne: "trim (city st) \<noteq> []"
  then have guard: "truthy (Str (trim (city st)))"
    by simp
  obtain es r where tb: "tryBlock net h (city st) = (es, r)"
    by (cases "tryBlock net h (city st)")
  show "(error (run (getWeather net h st) st) = lit ''City not found!''
          \<and> weather (run (getWeather net h st) st) = None)
     \<or> (error (run (getWeather net h st) st)
            = lit ''Error fetching weather data. Please try again.''
          \<and> weather (run (getWeather net h st) st) = None)
     \<or> (error (run (getWeather net h st) st) = []
          \<and> (\<exists>w. weather (run (getWeather net h st) st) = Some w))"
  proof (cases r)
    case (Inl e)
    with throw_final_state [OF ne] tb show ?thesis
      by blast
  next
    case (Inr u)
    with tb have "tryBlock net h (city st) = (es, Inr u)"
      by simp
    from tryBlock_Inr_cases [OF this] show ?thesis
    proof
      assume "\<exists>q. es = [Fetch (geoUrl q), SetError (lit ''City not found!''), SetWeather None,
                SetLoading False]"
      then show ?thesis
        using getWeather_guarded [OF guard tb] Inr by (auto simp: run_def)
    next
      assume "\<exists>q la lo w. es = [Fetch (geoUrl q), Fetch (weatherUrl la lo), SetWeather (Some w)]"
      then show ?thesis
        using getWeather_guarded [OF guard tb] Inr by (auto simp: run_def)
    qed
  qed
next
  assume "trim (city st) = []"
  then have "getWeather net h st = [SetError (lit ''Please enter a city name'')]"
    by (simp add: getWeather_def)
  then show "error (run (getWeather net h st) st) = lit ''Please enter a city name''
       \<and> weather (run (getWeather net h st) st) = weather st"
    by (simp add: run_def)
qed

theorem lookup_outcomes_witness:
  "trim (city sample_state) \<noteq> []
   \<and> ((error (run (getWeather down_net 2 sample_state) sample_state) = lit ''City not found!''
          \<and> weather (run (getWeather down_net 2 sample_state) sample_state) = None)
     \<or> (error (run (getWeather down_net 2 sample_state) sample_state)
            = lit ''Error fetching weather data. Please try again.''
          \<and> weather (run (getWeather down_net 2 sample_state) sample_state) = None)
     \<or> (error (run (getWeather down_net 2 sample_state) sample_state) = []
          \<and> (\<exists>w. weather (run (getWeather down_net 2 sample_state) sample_state) = Some w)))
   \<and> trim (city blank_state) = []
   \<and> error (run (getWeather sample_net 2 blank_state) blank_state)
       = lit ''Please enter a city name''
   \<and> weather (run (getWeather sample_net 2 blank_state) blank_state) = weather blank_state"
proof -
  have 1: "trim (city sample_state) \<noteq> []"
    by code_simp
  have 2: "trim (city blank_state) = []"
    by code_simp
  from lookup_outcomes [of sample_state down_net 2] lookup_outcomes [of blank_state sample_net 2]
    1 2
  show ?thesis
    by blast
qed

text \<open>
  Claim C4, as stated, has 0 substituted also when the hourly data is missing. For a
  forecast without its \<open>hourly\<close> object, building the snapshot throws: the lookup ends
  with the generic message and no snapshot.
\<close>

theorem missing_hourly_counterexample:
  "snapshot 2 (Str (lit ''Paris'')) (Str (lit ''France'')) no_hourly_forecast = Inl TypeError
   \<and> weather (run (getWeather no_hourly_net 2 sample_state) sample_state) = None
   \<and> error (run (getWeather no_hourly_net 2 sample_state) sample_state)
       = lit ''Error fetching weather data. Please try again.''"
  by code_simp

text \<open>
  Claim C4, amended. When the forecast has its \<open>current_weather\<close> and its \<open>hourly\<close>
  object with both series as arrays, the snapshot is built without an exception, and
  its humidity and precipitation are the entries at the local hour, with 0 in their
  place when the hour is beyond the end of the array or the entry is falsy. When the
  \<open>hourly\<close> object or one of the two series is \<open>undefined\<close> or \<open>null\<close>, building the
  snapshot throws a \<open>TypeError\<close>; and a lookup in which building the snapshot throws
  it ends with the generic fetch message and no snapshot.
\<close>

theorem hourly_entry_or_zero:
  "(get_prop weatherData (lit ''current_weather'') = Inr cw
      \<and> cw \<noteq> Undefined \<and> cw \<noteq> Null
      \<and> get_prop weatherData (lit ''hourly'') = Inr hourly
      \<and> get_prop hourly (lit ''relative_humidity_2m'') = Inr (Arr hs)
      \<and> get_prop hourly (lit ''precipitation_probability'') = Inr (Arr ps)
    \<longrightarrow> (\<exists>w. snapshot h n c weatherData = Inr w
          \<and> humidity w = (if h < length hs \<and> truthy (hs ! h) then hs ! h else Num 0)
          \<and> precipitation w = (if h < length ps \<and> truthy (ps ! h) then ps ! h else Num 0)))
   \<and> (get_prop weatherData (lit ''hourly'') = Inr hourly
      \<and> (hourly = Undefined \<or> hourly = Null
         \<or> get_prop hourly (lit ''relative_humidity_2m'') = Inr Undefined
         \<or> get_prop hourly (lit ''relative_humidity_2m'') = Inr Null
         \<or> get_prop hourly (lit ''precipitation_probability'') = Inr Undefined
         \<or> get_prop hourly (lit ''precipitation_probability'') = Inr Null)
    \<longrightarrow> snapshot h n c weatherData = Inl TypeError)
   \<and> (trim (city st) \<noteq> []
      \<and> encodeURIComponent (city st) = Inr q
      \<and> net (geoUrl q) = Json g
      \<and> noResults g = Inr False
      \<and> firstCandidate g = Inr (la, lo, n, c)
      \<and> net (weatherUrl la lo) = Json weatherData
      \<and> snapshot h n c weatherData = Inl TypeError
    \<longrightarrow> error (run (getWeather net h st) st)
          = lit ''Error fetching weather data. Please try again.''
        \<and> weather (run (getWeather net h st) st) = None)"
proof (intro conjI impI)
  assume a: "get_prop weatherData (lit ''current_weather'') = Inr cw
      \<and> cw \<noteq> Undefined \<and> cw \<noteq> Null
      \<and> get_prop weatherData (lit ''hourly'') = Inr hourly
      \<and> get_prop hourly (lit ''relative_humidity_2m'') = Inr (Arr hs)
      \<and> get_prop hourly (lit ''precipitation_probability'') = Inr (Arr ps)"
  then have cw: "cw \<noteq> Undefined" "cw \<noteq> Null"
    by simp_all
  obtain t where t: "get_prop cw (lit ''temperature'') = Inr t"
    using get_prop_defined cw by blast
  obtain wc where wc: "get_prop cw (lit ''weathercode'') = Inr wc"
    using get_prop_defined cw by blast
  obtain ws where ws: "get_prop cw (lit ''windspeed'') = Inr ws"
    using get_prop_defined cw by blast
  obtain d where d: "get_prop cw (lit ''is_day'') = Inr d"
    using get_prop_defined cw by blast
  show "\<exists>w. snapshot h n c weatherData = Inr w
          \<and> humidity w = (if h < length hs \<and> truthy (hs ! h) then hs ! h else Num 0)
          \<and> precipitation w = (if h < length ps \<and> truthy (ps ! h) then ps ! h else Num 0)"
    using a t wc ws d
    by (simp add: snapshot_def and_then_def js_or_def)
next
  assume "get_prop weatherData (lit ''hourly'') = Inr hourly
      \<and> (hourly = Undefined \<or> hourly = Null
         \<or> get_prop hourly (lit ''relative_humidity_2m'') = Inr Undefined
         \<or> get_prop hourly (lit ''relative_humidity_2m'') = Inr Null
         \<or> get_prop hourly (lit ''precipitation_probability'') = Inr Undefined
         \<or> get_prop hourly (lit ''precipitation_probability'') = Inr Null)"
  then show "snapshot h n c weatherData = Inl TypeError"
    using snapshot_missing_series by blast
next
  assume "trim (city st) \<noteq> []
      \<and> encodeURIComponent (city st) = Inr q
      \<and> net (geoUrl q) = Json g
      \<and> noResults g = Inr False
      \<and> firstCandidate g = Inr (la, lo, n, c)
      \<and> net (weatherUrl la lo) = Json weatherData
      \<and> snapshot h n c weatherData = Inl TypeError"
  then have r: "error (run (getWeather net h st) st)
          = lit ''Error fetching weather data. Please try again.''
        \<and> weather (run (getWeather net h st) st) = None"
    using throw_in_forecast by blast
  from r show "error (run (getWeather net h st) st)
          = lit ''Error fetching weather data. Please try again.''"
    by simp
  from r show "weather (run (getWeather net h st) st) = None"
    by simp
qed

theorem hourly_entry_or_zero_witness:
  "snapshot 2 (Str (lit ''Paris'')) (Str (lit ''France'')) sample_forecast
     = Inr sample_snapshot
   \<and> humidity sample_snapshot = Num 64 \<and> precipitation sample_snapshot = Num 0
   \<and> snapshot 2 (Str (lit ''Paris'')) (Str (lit ''France'')) null_series_forecast
       = Inl TypeError
   \<and> error (run (getWeather null_series_net 2 sample_state) sample_state)
       = lit ''Error fetching weather data. Please try again.''
   \<and> weather (run (getWeather null_series_net 2 sample_state) sample_state) = None"
proof -
  define cw where
    "cw = Obj [(lit ''temperature'', Num 20.5), (lit ''weathercode'', Num 3),
               (lit ''windspeed'', Num 11.2), (lit ''is_day'', Num 1)]"
  define hourly where
    "hourly = Obj [(lit ''relative_humidity_2m'', Arr [Num 81, Num 0, Num 64]),
                   (lit ''precipitation_probability'', Arr [Num 5, Null])]"
  define hourly' where
    "hourly' = Obj [(lit ''relative_humidity_2m'', Arr [Num 81, Num 0, Num 64]),
                    (lit ''precipitation_probability'', Null)]"
  have 1: "get_prop sample_forecast (lit ''current_weather'') = Inr cw"
    unfolding cw_def by code_simp
  have 2: "cw \<noteq> Undefined" "cw \<noteq> Null"
    by (simp_all add: cw_def)
  have 3: "get_prop sample_forecast (lit ''hourly'') = Inr hourly"
    unfolding hourly_def by code_simp
  have 4: "get_prop hourly (lit ''relative_humidity_2m'') = Inr (Arr [Num 81, Num 0, Num 64])"
    unfolding hourly_def by code_simp
  have 5: "get_prop hourly (lit ''precipitation_probability'') = Inr (Arr [Num 5, Null])"
    unfolding hourly_def by code_simp
  have 6: "snapshot 2 (Str (lit ''Paris'')) (Str (lit ''France'')) sample_forecast
      = Inr sample_snapshot"
    by code_simp
  have a: "\<exists>w. snapshot 2 (Str (lit ''Paris'')) (Str (lit ''France'')) sample_forecast = Inr w
     \<and> humidity w = (if 2 < length [Num 81, Num 0, Num 64] \<and> truthy ([Num 81, Num 0, Num 64] ! 2)
          then [Num 81, Num 0, Num 64] ! 2 else Num 0)
     \<and> precipitation w = (if 2 < length [Num 5, Null] \<and> truthy ([Num 5, Null] ! 2)
          then [Num 5, Null] ! 2 else Num 0)"
    using hourly_entry_or_zero [where weatherData = sample_forecast and cw = cw
        and hourly = hourly and hs = "[Num 81, Num 0, Num 64]" and ps = "[Num 5, Null]"
        and h = 2 and n = "Str (lit ''Paris'')" and c = "Str (lit ''France'')"]
      1 2 3 4 5
    by blast
  with 6 have first: "humidity sample_snapshot = Num 64 \<and> precipitation sample_snapshot = Num 0"
    by simp
  have 7: "get_prop null_series_forecast (lit ''hourly'') = Inr hourly'"
    unfolding hourly'_def by code_simp
  have 8: "get_prop hourly' (lit ''precipitation_probability'') = Inr Null"
    unfolding hourly'_def by code_simp
  have b: "snapshot 2 (Str (lit ''Paris'')) (Str (lit ''France'')) null_series_forecast
      = Inl TypeError"
    using hourly_entry_or_zero [where weatherData = null_series_forecast
        and hourly = hourly' and h = 2 and n = "Str (lit ''Paris'')"
        and c = "Str (lit ''France'')"]
      7 8
    by blast
  have 9: "trim (city sample_state) \<noteq> []"
    by code_simp
  have 10: "encodeURIComponent (city sample_state) = Inr (lit ''%20Paris%20'')"
    by code_simp
  have 11: "null_series_net (geoUrl (lit ''%20Paris%20'')) = Json sample_geo"
    by code_simp
  have 12: "noResults sample_geo = Inr False"
    by code_simp
  have 13: "firstCandidate sample_geo
      = Inr (Num 48.85341, Num 2.3488, Str (lit ''Paris''), Str (lit ''France''))"
    by code_simp
  have 14: "null_series_net (weatherUrl (Num 48.85341) (Num 2.3488)) = Json null_series_forecast"
    by code_simp
  have c: "error (run (getWeather null_series_net 2 sample_state) sample_state)
          = lit ''Error fetching weather data. Please try again.''
        \<and> weather (run (getWeather null_series_net 2 sample_state) sample_state) = None"
    using hourly_entry_or_zero [where weatherData = null_series_forecast
        and st = sample_state and q = "lit ''%20Paris%20''" and net = null_series_net
        and g = sample_geo and la = "Num 48.85341" and lo = "Num 2.3488"
        and n = "Str (lit ''Paris'')" and c = "Str (lit ''France'')" and h = 2]
      9 10 11 12 13 14 b
    by blast
  from 6 first b c show ?thesis
    by blast
qed

text \<open>
  Claim C5. When the input is empty or holds only white space, \<open>getWeather\<close> does one
  thing: it sets the message "Please enter a city name". No request is sent and
  \<open>setLoading(true)\<close> is not called, so the loading flag stays as it was; the Enter key
  does the same.
\<close>

theorem empty_input_rejected:
  assumes "\<forall>c\<in>set (city st). isWhiteSpace c"
  shows "getWeather net h st = [SetError (lit ''Please enter a city name'')]
     \<and> handle net h (KeyPress (lit ''Enter'')) st = [SetError (lit ''Please enter a city name'')]
     \<and> (\<forall>u. Fetch u \<notin> set (getWeather net h st))
     \<and> SetLoading True \<notin> set (getWeather net h st)
     \<and> error (run (getWeather net h st) st) = lit ''Please enter a city name''
     \<and> loading (run (getWeather net h st) st) = loading st"
proof -
  from assms have "trim (city st) = []"
    by (simp add: trim_Nil_iff)
  then have "getWeather net h st = [SetError (lit ''Please enter a city name'')]"
    by (simp add: getWeather_def)
  then show ?thesis
    by (simp add: run_def)
qed

theorem empty_input_rejected_witness:
  "list_all isWhiteSpace (city blank_state)
   \<and> getWeather sample_net 2 blank_state = [SetError (lit ''Please enter a city name'')]
   \<and> loading (run (getWeather sample_net 2 blank_state) blank_state) = False"
proof -
  have 1: "\<forall>c\<in>set (city blank_state). isWhiteSpace c"
    by (simp add: blank_state_def isWhiteSpace_def)
  then have 2: "list_all isWhiteSpace (city blank_state)"
    by (simp add: list_all_iff)
  have 3: "loading blank_state = False"
    by (simp add: blank_state_def)
  from empty_input_rejected [OF 1, of sample_net 2] 2 3 show ?thesis
    by metis
qed

text \<open>
  Claim C6. When the geocoding answer has no \<open>results\<close> property or an empty \<open>results\<close>
  array, the lookup sends the geocoding request and nothing else, sets the message
  "City not found!", clears the snapshot and ends with the loading flag off.
\<close>

theorem city_not_found:
  assumes "trim (city st) \<noteq> []"
    and "encodeURIComponent (city st) = Inr q"
    and "net (geoUrl q) = Json geoData"
    and "get_prop geoData (lit ''results'') = Inr results"
    and "results = Undefined \<or> results = Arr []"
  shows "getWeather net h st =
           [SetLoading True, SetError [], Fetch (geoUrl q), SetError (lit ''City not found!''),
            SetWeather None, SetLoading False, SetLoading False]
       \<and> error (run (getWeather net h st) st) = lit ''City not found!''
       \<and> weather (run (getWeather net h st) st) = None
       \<and> loading (run (getWeather net h st) st) = False"
proof -
  from assms(4,5) have "noResults geoData = Inr True"
    by (auto simp: noResults_def and_then_def)
  with assms(2,3) have "tryBlock net h (city st) =
      ([Fetch (geoUrl q), SetError (lit ''City not found!''), SetWeather None,
        SetLoading False], Inr ())"
    by (simp add: tryBlock_def fetchJson_def)
  with assms(1) have "getWeather net h st =
           [SetLoading True, SetError [], Fetch (geoUrl q), SetError (lit ''City not found!''),
            SetWeather None, SetLoading False, SetLoading False]"
    by (simp add: getWeather_def)
  then show ?thesis
    by (simp add: run_def)
qed

theorem city_not_found_witness:
  "trim (city sample_state) \<noteq> []
   \<and> getWeather empty_geo_net 2 sample_state =
       [SetLoading True, SetError [], Fetch (geoUrl (lit ''%20Paris%20'')),
        SetError (lit ''City not found!''), SetWeather None, SetLoading False, SetLoading False]
   \<and> weather (run (getWeather empty_geo_net 2 sample_state) sample_state) = None"
proof -
  have 1: "trim (city sample_state) \<noteq> []"
    by code_simp
  have 2: "encodeURIComponent (city sample_state) = Inr (lit ''%20Paris%20'')"
    by code_simp
  have 3: "empty_geo_net (geoUrl (lit ''%20Paris%20'')) = Json (Obj [(lit ''results'', Arr [])])"
    by (simp add: empty_geo_net_def)
  have 4: "get_prop (Obj [(lit ''results'', Arr [])]) (lit ''results'') = Inr (Arr [])"
    by simp
  have 5: "Arr [] = Undefined \<or> Arr [] = Arr []"
    by simp
  from city_not_found [where st = sample_state and net = empty_geo_net and h = 2
      and q = "lit ''%20Paris%20''" and geoData = "Obj [(lit ''results'', Arr [])]"
      and results = "Arr []", OF 1 2 3 4 5] 1
  show ?thesis
    by blast
qed



text \<open>
  Claim C8, as stated, has \<open>convertTemp\<close> return exactly \<open>C * 9/5 + 32\<close>. At the double
  0.27777777777777773 it returns 32.5, which is not the exact value of the formula;
  the value shown is 33, and the exact value rounds to 32.
\<close>

theorem convertTemp_not_exact:
  "convertTemp False (Fin (5003999585967217 / 18014398509481984)) = Fin (65 / 2)
   \<and> (5003999585967217 / 18014398509481984 :: real) * 9 / 5 + 32 \<noteq> 65 / 2
   \<and> displayedTemp False (Fin (5003999585967217 / 18014398509481984)) = Fin 33
   \<and> Math_round (Fin (5003999585967217 / 18014398509481984 * 9 / 5 + 32)) = Fin 32"
  by code_simp

text \<open>
  Claim C8, amended. \<open>convertTemp\<close> depends on the Celsius value and the flag only:
  with the flag set it returns its argument; without it, \<open>((C * 9) / 5) + 32\<close> in double
  arithmetic, each of the three operations giving its exact result rounded by \<open>fl\<close> (a
  finite result differs from the exact one by at most its \<open>1 / 2 ^ 53\<close> part when that is
  of normal size).
  The panel shows \<open>Math.round\<close> of the result: a nearest integer, at most one half
  away, a tie going up; an infinity and \<open>NaN\<close> as they are.
\<close>

theorem convertTemp_double:
  "convertTemp True x = x
   \<and> convertTemp False x = fadd (fdiv (fmul x 9) 5) 32
   \<and> fmul (Fin a) 9 = fl (a * 9)
   \<and> fdiv (Fin a) 5 = fl (a / 5)
   \<and> fadd (Fin a) 32 = fl (a + 32)
   \<and> (fl y = Fin r \<and> pow2 (- 1022) \<le> \<bar>y\<bar> \<longrightarrow> \<bar>r - y\<bar> \<le> \<bar>y\<bar> / 2 ^ 53)
   \<and> displayedTemp b x = Math_round (convertTemp b x)
   \<and> Math_round (Fin c) = Fin (real_of_int \<lfloor>c + 1 / 2\<rfloor>)
   \<and> \<bar>real_of_int \<lfloor>c + 1 / 2\<rfloor> - c\<bar> \<le> 1 / 2
   \<and> Math_round (Fin (real_of_int n + 1 / 2)) = Fin (real_of_int (n + 1))
   \<and> Math_round PosInf = PosInf \<and> Math_round NegInf = NegInf \<and> Math_round NaN = NaN"
proof -
  have "fl y = Fin r \<and> pow2 (- 1022) \<le> \<bar>y\<bar> \<longrightarrow> \<bar>r - y\<bar> \<le> \<bar>y\<bar> / 2 ^ 53"
    using fl_error by blast
  moreover have "Math_round (Fin (real_of_int n + 1 / 2)) = Fin (real_of_int (n + 1))"
    by (simp add: Math_round_def)
  ultimately show ?thesis
    using floor_half_near [of c]
    by (simp add: convertTemp_def displayedTemp_def Math_round_def fmul_def fdiv_def fadd_def)
qed

theorem convertTemp_double_witness:
  "fl (45035996273704953 / 18014398509481984) = Fin (5629499534213119 / 2251799813685248)
   \<and> pow2 (- 1022) \<le> \<bar>45035996273704953 / 18014398509481984 :: real\<bar>
   \<and> \<bar>5629499534213119 / 2251799813685248 - 45035996273704953 / 18014398509481984 :: real\<bar>
       \<le> \<bar>45035996273704953 / 18014398509481984\<bar> / 2 ^ 53"
proof -
  have 1: "fl (45035996273704953 / 18014398509481984)
      = Fin (5629499534213119 / 2251799813685248)"
    by code_simp
  have 2: "pow2 (- 1022) \<le> \<bar>45035996273704953 / 18014398509481984 :: real\<bar>"
    by code_simp
  from convertTemp_double [where y = "45035996273704953 / 18014398509481984"
      and r = "5629499534213119 / 2251799813685248"] 1 2
  show ?thesis
    by blast
qed

text \<open>
  Claim C9. A click on either unit button changes the \<open>isCelsius\<close> cell and nothing
  else: the snapshot, the message, the loading flag and the input are as before. The
  lookup does not read the unit, so what it does and what it stores are the same in
  either mode; the conversion happens in the rendering only.
\<close>

theorem unit_toggle_frame:
  "weather (step net h ClickCelsius st) = weather st
   \<and> error (step net h ClickCelsius st) = error st
   \<and> loading (step net h ClickCelsius st) = loading st
   \<and> city (step net h ClickCelsius st) = city st
   \<and> isCelsius (step net h ClickCelsius st) = True
   \<and> weather (step net h ClickFahrenheit st) = weather st
   \<and> error (step net h ClickFahrenheit st) = error st
   \<and> loading (step net h ClickFahrenheit st) = loading st
   \<and> city (step net h ClickFahrenheit st) = city st
   \<and> isCelsius (step net h ClickFahrenheit st) = False
   \<and> getWeather net h (st\<lparr>isCelsius := b\<rparr>) = getWeather net h st
   \<and> weather (run (getWeather net h (st\<lparr>isCelsius := b\<rparr>)) (st\<lparr>isCelsius := b\<rparr>))
       = weather (run (getWeather net h st) st)"
proof -
  have same: "getWeather net h (st\<lparr>isCelsius := b\<rparr>) = getWeather net h st"
    by (simp add: getWeather_def)
  have "weather (run (getWeather net h st) (st\<lparr>isCelsius := b\<rparr>))
       = weather (run (getWeather net h st) st)"
    by (rule run_weather) simp
  with same show ?thesis
    by (simp add: step_def run_def)
qed

text \<open>
  Claim C10. When the trimmed input is not empty, the string given to
  \<open>encodeURIComponent\<close> is the input as typed, not the trimmed one: the first request
  is the geocoding URL with the encoding of the raw input. (When the raw input has an
  unpaired surrogate the encoding throws and no URL is built.) The trimmed string is
  used for the emptiness test only.
\<close>

theorem geocoding_uses_raw_input:
  assumes "trim (city st) \<noteq> []"
  shows "(case encodeURIComponent (city st) of
            Inr q \<Rightarrow> take 3 (getWeather net h st)
                       = [SetLoading True, SetError [], Fetch (geoUrl q)]
          | Inl e \<Rightarrow> getWeather net h st
                       = [SetLoading True, SetError [], ConsoleError e,
                          SetError (lit ''Error fetching weather data. Please try again.''),
                          SetWeather None, SetLoading False])"
  using assms
  by (auto simp: getWeather_def tryBlock_def split: sum.splits prod.splits if_splits)

theorem geocoding_uses_raw_input_witness:
  "trim (city sample_state) \<noteq> []
   \<and> take 3 (getWeather sample_net 2 sample_state)
       = [SetLoading True, SetError [], Fetch (geoUrl (lit ''%20Paris%20''))]
   \<and> encodeURIComponent (trim (city sample_state)) = Inr (lit ''Paris'')
   \<and> geoUrl (lit ''%20Paris%20'') \<noteq> geoUrl (lit ''Paris'')"
proof -
  have 1: "trim (city sample_state) \<noteq> []"
    by code_simp
  have 2: "encodeURIComponent (city sample_state) = Inr (lit ''%20Paris%20'')"
    by code_simp
  have 3: "encodeURIComponent (trim (city sample_state)) = Inr (lit ''Paris'')"
    by code_simp
  have 4: "geoUrl (lit ''%20Paris%20'') \<noteq> geoUrl (lit ''Paris'')"
    by code_simp
  from geocoding_uses_raw_input [OF 1, of sample_net 2] 2
  have "take 3 (getWeather sample_net 2 sample_state)
       = [SetLoading True, SetError [], Fetch (geoUrl (lit ''%20Paris%20''))]"
    by simp
  with 1 3 4 show ?thesis
    by blast
qed

end
